theory Spec2Isabelle
  imports Complex_Main "HOL-Library.Word" "HOL-Library.DAList" "HOL-Library.Signed_Division"
begin

section \<open>The Alexa request handler of \<^verbatim>\<open>alexa.go\<close>\<close>

text \<open>
  A shallow embedding of \<^verbatim>\<open>alexa.go\<close>: the request and response structures, the
  accessors of the request envelope, the helpers that mutate a response, the two
  validation checks and \<^verbatim>\<open>ProcessRequest\<close>.

  Conventions.
  \<^item> A Go struct is a record with the field names of the source. A name that several
    structs share is plain in one record and prefixed in the others (\<open>Type\<close> is the
    type of a request, \<open>Speech_Type\<close> that of an output speech); the small anonymous
    structs inside a struct are records of their own or are flattened, with a prefix.
  \<^item> A pointer that may be \<^verbatim>\<open>nil\<close> is an \<open>option\<close>; dereferencing \<open>None\<close> is the
    run-time panic of Go, the outcome \<open>Panic\<close>.
  \<^item> A \<^verbatim>\<open>map[string]interface{}\<close> is a reference in Go. The session attributes live in
    a store of mapping objects, and a structure holds the address of its mapping, so
    that two structures sharing one mapping can be told from two structures holding
    equal mappings.
  \<^item> The four callbacks of the application are parameters: functions on the objects
    they are handed, each returning the error it reports (if any).
  \<^item> Writing to the log and to standard output is left out; it has no bearing on any
    value returned.
\<close>

subsection \<open>Constants\<close>

definition sdkVersion :: string where
  "sdkVersion = ''1.0''"

definition launchRequestName :: string where
  "launchRequestName = ''LaunchRequest''"

definition intentRequestName :: string where
  "intentRequestName = ''IntentRequest''"

definition sessionEndedRequestName :: string where
  "sessionEndedRequestName = ''SessionEndedRequest''"

text \<open>
  The initial value of the package variable \<^verbatim>\<open>timestampTolerance\<close>, in seconds. The
  variable is read by \<^verbatim>\<open>verifyTimestamp\<close>; its value at the time of a call is the
  parameter \<open>tolerance\<close> of the functions below.
\<close>

definition timestampTolerance :: int where
  "timestampTolerance = 150"

subsection \<open>Outcomes and errors\<close>

datatype 'a outcome = Panic | Done 'a

text \<open>
  The errors \<^verbatim>\<open>ProcessRequest\<close> can return, by the place that creates them:
  \<^item> \<open>ErrRequestEnvelopeNil\<close>: the package variable of that name;
  \<^item> \<open>ErrApplicationIDEmpty\<close>: "application ID was set to an empty string";
  \<^item> \<open>ErrRequestApplicationIDEmpty\<close>: "request Application ID was set to an empty string";
  \<^item> \<open>ErrApplicationIDMismatch\<close>: "request Application ID does not match expected
    ApplicationId";
  \<^item> \<open>ErrTimestampParse msg\<close>: "unable to parse request timestamp", with the parser's
    message;
  \<^item> \<open>ErrTimestampTolerance timestamp now tolerance\<close>: "invalid Timestamp", with the
    three values the message prints;
  \<^item> \<open>ErrCallback e\<close>: the error \<open>e\<close> returned by a callback, handed on as it is.
\<close>

datatype 'e error =
    ErrRequestEnvelopeNil
  | ErrApplicationIDEmpty
  | ErrRequestApplicationIDEmpty
  | ErrApplicationIDMismatch
  | ErrTimestampParse string
  | ErrTimestampTolerance int int int
  | ErrCallback 'e

fun identity_error :: "'e error \<Rightarrow> bool" where
  "identity_error ErrApplicationIDEmpty = True"
| "identity_error ErrRequestApplicationIDEmpty = True"
| "identity_error ErrApplicationIDMismatch = True"
| "identity_error _ = False"

fun parse_error :: "'e error \<Rightarrow> bool" where
  "parse_error (ErrTimestampParse _) = True"
| "parse_error _ = False"

fun tolerance_error :: "'e error \<Rightarrow> bool" where
  "tolerance_error (ErrTimestampTolerance _ _ _) = True"
| "tolerance_error _ = False"

fun validation_error :: "'e error \<Rightarrow> bool" where
  "validation_error (ErrCallback _) = False"
| "validation_error _ = True"

subsection \<open>The request\<close>

type_synonym addr = nat

record SessionApplication =
  Application_ApplicationID :: string

record SessionUser =
  User_UserID :: string
  User_AccessToken :: string

record Session =
  New :: bool
  SessionID :: string
  Application :: SessionApplication
  Attributes :: "addr option"
  User :: SessionUser

record ContextAudioPlayer =
  AudioPlayer_Token :: string
  AudioPlayer_OffsetInMilliseconds :: "64 word"
  AudioPlayer_PlayerActivity :: string

record ContextDisplay =
  Display_Token :: string

record ContextSystem =
  System_ApplicationID :: string
  System_UserID :: string
  System_AccessToken :: string
  System_DeviceID :: string
  System_TemplateVersion :: string
  System_MarkupVersion :: string
  APIEndpoint :: string
  APIAccessToken :: string

record Context =
  AudioPlayer :: ContextAudioPlayer
  Display :: ContextDisplay
  System :: ContextSystem

record EchoResolutionPerAuthority =
  Authority :: string
  Status_Code :: string
  Values :: "(string \<rightharpoonup> string \<times> string) list"

record Resolutions =
  ResolutionsPerAuthority :: "EchoResolutionPerAuthority list"

record IntentSlot =
  Slot_Name :: string
  Slot_ConfirmationStatus :: string
  Value :: string
  Slot_Resolutions :: "Resolutions option"

record Intent =
  Intent_Name :: string
  Intent_ConfirmationStatus :: string
  Slots :: "string \<rightharpoonup> IntentSlot"

record Request =
  Locale :: string
  Timestamp :: string
  Type :: string
  RequestID :: string
  DialogState :: string
  Intent :: Intent
  Request_Name :: string
  Reason :: string

record RequestEnvelope =
  Version :: string
  Session :: "Session option"
  Request :: "Request option"
  Context :: "Context option"

subsection \<open>The response\<close>

record OutputSpeech =
  Speech_Type :: string
  Text :: string
  SSML :: string
  Speech_PlayBehavior :: string

record Image =
  SmallImageURL :: string
  LargeImageURL :: string

record Card =
  Card_Type :: string
  Title :: string
  Content :: string
  Card_Text :: string
  Image :: "Image option"

record Reprompt =
  Reprompt_OutputSpeech :: "OutputSpeech option"

record Stream =
  Stream_Token :: string
  URL :: string
  Stream_OffsetInMilliseconds :: int

record AudioItem =
  Stream :: Stream

record AudioPlayerDirective =
  Audio_Type :: string
  Audio_PlayBehavior :: string
  AudioItem :: "AudioItem option"

record DialogDirective =
  Dialog_Type :: string
  SlotToElicit :: string
  SlotToConfirm :: string
  UpdatedIntent :: "Intent option"

text \<open>
  The directives of a response are a \<^verbatim>\<open>[]interface{}\<close>. The two helpers of the source
  store the two structures above; \<open>OtherDirective\<close> stands for any other value a
  caller puts in the sequence.
\<close>

datatype directive =
    AudioPlayerD AudioPlayerDirective
  | DialogD DialogDirective
  | OtherDirective string

record Response =
  OutputSpeech :: "OutputSpeech option"
  Card :: "Card option"
  Reprompt :: "Reprompt option"
  Directives :: "directive list"
  ShouldEndSession :: bool

record ResponseEnvelope =
  Response_Version :: string
  SessionAttributes :: "addr option"
  Response :: Response

subsection \<open>Accessors of the request envelope\<close>

definition GetSessionID :: "RequestEnvelope \<Rightarrow> string outcome" where
  "GetSessionID r = (case Session r of None \<Rightarrow> Panic | Some s \<Rightarrow> Done (SessionID s))"

definition GetUserID :: "RequestEnvelope \<Rightarrow> string outcome" where
  "GetUserID r = (case Session r of None \<Rightarrow> Panic | Some s \<Rightarrow> Done (User_UserID (User s)))"

definition GetRequestType :: "RequestEnvelope \<Rightarrow> string outcome" where
  "GetRequestType r = (case Request r of None \<Rightarrow> Panic | Some q \<Rightarrow> Done (Type q))"

definition GetIntentName :: "RequestEnvelope \<Rightarrow> string outcome" where
  "GetIntentName r =
     (case GetRequestType r of
        Panic \<Rightarrow> Panic
      | Done t \<Rightarrow>
          if t = ''IntentRequest''
          then (case Request r of None \<Rightarrow> Panic | Some q \<Rightarrow> Done (Intent_Name (Intent q)))
          else GetRequestType r)"

subsection \<open>Helpers that mutate a response\<close>

definition SetEndSession :: "Response \<Rightarrow> bool \<Rightarrow> Response" where
  "SetEndSession r flag = r\<lparr>ShouldEndSession := flag\<rparr>"

definition SetOutputSpeech :: "Response \<Rightarrow> string \<Rightarrow> Response" where
  "SetOutputSpeech r text =
     r\<lparr>OutputSpeech := Some \<lparr>Speech_Type = ''PlainText'', Text = text, SSML = '''',
                              Speech_PlayBehavior = ''''\<rparr>\<rparr>"

definition AddAudioPlayer ::
  "Response \<Rightarrow> string \<Rightarrow> string \<Rightarrow> string \<Rightarrow> string \<Rightarrow> int \<Rightarrow> Response" where
  "AddAudioPlayer r playerType playBehavior streamToken url offsetInMilliseconds =
     (let d = \<lparr>Audio_Type = playerType,
               Audio_PlayBehavior = playBehavior,
               AudioItem = Some \<lparr>Stream = \<lparr>Stream_Token = streamToken, URL = url,
                 Stream_OffsetInMilliseconds = offsetInMilliseconds\<rparr>\<rparr>\<rparr>
      in r\<lparr>Directives := Directives r @ [AudioPlayerD d]\<rparr>)"

definition AddDialogDirective ::
  "Response \<Rightarrow> string \<Rightarrow> string \<Rightarrow> string \<Rightarrow> Intent option \<Rightarrow> Response" where
  "AddDialogDirective r dialogType slotToElicit slotToConfirm intent =
     (let d = \<lparr>Dialog_Type = dialogType,
               SlotToElicit = slotToElicit,
               SlotToConfirm = slotToConfirm,
               UpdatedIntent = intent\<rparr>
      in r\<lparr>Directives := Directives r @ [DialogD d]\<rparr>)"

text \<open>
  A call of one of the two helpers that add a directive, with its arguments, and a
  sequence of such calls applied to a response from left to right.
\<close>

datatype add_call =
    CallAddAudioPlayer string string string string int
  | CallAddDialogDirective string string string "Intent option"

fun apply_call :: "Response \<Rightarrow> add_call \<Rightarrow> Response" where
  "apply_call r (CallAddAudioPlayer t b k u off) = AddAudioPlayer r t b k u off"
| "apply_call r (CallAddDialogDirective t e c i) = AddDialogDirective r t e c i"

fun apply_calls :: "Response \<Rightarrow> add_call list \<Rightarrow> Response" where
  "apply_calls r [] = r"
| "apply_calls r (c # cs) = apply_calls (apply_call r c) cs"

subsection \<open>The Go library, as far as the source calls it\<close>

text \<open>
  Three things come from outside the source and are parameters of the model:
  \<^item> \<open>time_Parse\<close>: \<^verbatim>\<open>time.Parse(time.RFC3339, s)\<close>, returning the parser's message
    (\<open>Inl\<close>) or the instant parsed, in nanoseconds since the epoch (\<open>Inr\<close>). A timestamp
    is well-formed RFC3339 when \<open>time_Parse\<close> returns an instant for it;
  \<^item> \<open>time_Now\<close>: the instant \<^verbatim>\<open>time.Now()\<close> returns, in nanoseconds since the epoch;
  \<^item> \<open>float64\<close>: the rounding of a real number to the \<^verbatim>\<open>float64\<close> that stands
    for it. Nothing is fixed about it here; the one theorem that depends on it assumes
    that it is monotone and leaves the numbers in \<open>binary64\<close> as they are.
\<close>

record runtime =
  time_Parse :: "string \<Rightarrow> string + int"
  time_Now :: int
  float64 :: "real \<Rightarrow> real"

text \<open>
  Numbers \<open>m / 2 ^ k\<close> with \<open>\<bar>m\<bar> \<le> 2 ^ 53\<close> and \<open>k \<le> 1074\<close>: each of them is a
  \<^verbatim>\<open>float64\<close> value (they are the values of magnitude at most \<open>2 ^ 53\<close>).
\<close>

definition binary64 :: "real \<Rightarrow> bool" where
  "binary64 x \<longleftrightarrow> (\<exists>(m::int) (k::nat). \<bar>m\<bar> \<le> 2 ^ 53 \<and> k \<le> 1074 \<and> x = of_int m / 2 ^ k)"

definition Second :: int where
  "Second = 1000000000"

definition minDuration :: int where
  "minDuration = - (2 ^ 63)"

definition maxDuration :: int where
  "maxDuration = 2 ^ 63 - 1"

text \<open>
  \<^verbatim>\<open>Time.Sub\<close>: a \<^verbatim>\<open>Duration\<close> is a count of nanoseconds in an \<^verbatim>\<open>int64\<close>, and a
  difference out of its range is replaced by the nearest bound.
\<close>

definition time_Sub :: "int \<Rightarrow> int \<Rightarrow> int" where
  "time_Sub t u =
     (let d = t - u
      in if d < minDuration then minDuration
         else if maxDuration < d then maxDuration
         else d)"

text \<open>
  \<^verbatim>\<open>Duration.Seconds\<close>: \<^verbatim>\<open>float64(d / Second) + float64(d % Second) / 1e9\<close>, the integer
  division and remainder of Go truncating towards zero.
\<close>

definition Seconds :: "runtime \<Rightarrow> int \<Rightarrow> real" where
  "Seconds rt d =
     (let sec = d sdiv Second;
          nsec = d smod Second
      in float64 rt (float64 rt (of_int sec) + float64 rt (float64 rt (of_int nsec) / 1000000000)))"

subsection \<open>The handler and its callbacks\<close>

text \<open>
  The objects a callback is handed: the request, the session, the context and the
  response (each behind a pointer, so that the callback can change it), with the
  store of attribute mappings. A callback returns the error it reports and the
  objects as it leaves them. \<^verbatim>\<open>ProcessRequest\<close> hands on the request and the context
  pointers as they are, \<^verbatim>\<open>nil\<close> or not.
\<close>

record 'v objects =
  cb_request :: "Request option"
  cb_session :: Session
  cb_context :: "Context option"
  cb_response :: Response
  cb_store :: "(string, 'v) alist list"

type_synonym ('e, 'v) callback = "'v objects \<Rightarrow> 'e option \<times> 'v objects"

record ('e, 'v) RequestHandler =
  OnSessionStarted :: "('e, 'v) callback"
  OnLaunch :: "('e, 'v) callback"
  OnIntent :: "('e, 'v) callback"
  OnSessionEnded :: "('e, 'v) callback"

record ('e, 'v) Alexa =
  ApplicationID :: string
  RequestHandler :: "('e, 'v) RequestHandler option"
  IgnoreApplicationID :: bool
  IgnoreTimestamp :: bool

text \<open>\<^verbatim>\<open>SetTimestampTolerance\<close>: the value of the package variable after the call.\<close>

definition SetTimestampTolerance :: "int \<Rightarrow> int" where
  "SetTimestampTolerance seconds = seconds"

text \<open>The calls of callbacks made during one run, in order, each with the error returned.\<close>

datatype call = CallOnSessionStarted | CallOnLaunch | CallOnIntent | CallOnSessionEnded

type_synonym 'e trace = "(call \<times> 'e option) list"

fun callback_of :: "call \<Rightarrow> ('e, 'v) RequestHandler \<Rightarrow> ('e, 'v) callback" where
  "callback_of CallOnSessionStarted h = OnSessionStarted h"
| "callback_of CallOnLaunch h = OnLaunch h"
| "callback_of CallOnIntent h = OnIntent h"
| "callback_of CallOnSessionEnded h = OnSessionEnded h"

subsection \<open>Validation\<close>

text \<open>
  \<^verbatim>\<open>verifyApplicationID\<close> (lines 523 to 541). The application identifier of the session
  is read before the configured one is tested; with no session the read panics.
\<close>

definition verifyApplicationID ::
  "('e, 'v) Alexa \<Rightarrow> RequestEnvelope option \<Rightarrow> 'e error option outcome" where
  "verifyApplicationID alexa request =
     (case request of
        None \<Rightarrow> Done (Some ErrRequestEnvelopeNil)
      | Some env \<Rightarrow>
          (case Session env of
             None \<Rightarrow> Panic
           | Some s \<Rightarrow>
               (let appID = ApplicationID alexa;
                    requestAppID = Application_ApplicationID (Application s)
                in if appID = '''' then Done (Some ErrApplicationIDEmpty)
                   else if requestAppID = '''' then Done (Some ErrRequestApplicationIDEmpty)
                   else if appID \<noteq> requestAppID then Done (Some ErrApplicationIDMismatch)
                   else Done None)))"

text \<open>
  \<^verbatim>\<open>verifyTimestamp\<close> (lines 545 to 562); the receiver is not used. With no request the
  read of the timestamp panics.
\<close>

definition verifyTimestamp ::
  "runtime \<Rightarrow> int \<Rightarrow> ('e, 'v) Alexa \<Rightarrow> RequestEnvelope option \<Rightarrow> 'e error option outcome" where
  "verifyTimestamp rt tolerance alexa request =
     (case request of
        None \<Rightarrow> Done (Some ErrRequestEnvelopeNil)
      | Some env \<Rightarrow>
          (case Request env of
             None \<Rightarrow> Panic
           | Some q \<Rightarrow>
               (case time_Parse rt (Timestamp q) of
                  Inl msg \<Rightarrow> Done (Some (ErrTimestampParse msg))
                | Inr timestamp \<Rightarrow>
                    (let now = time_Now rt;
                         delta = time_Sub now timestamp;
                         deltaSecsAbs = \<bar>Seconds rt delta\<bar>
                     in if deltaSecsAbs > float64 rt (of_int tolerance)
                        then Done (Some (ErrTimestampTolerance timestamp now tolerance))
                        else Done None))))"

text \<open>
  The two checks of \<^verbatim>\<open>ProcessRequest\<close> (lines 369 to 382), each skipped when its
  \<^verbatim>\<open>Ignore\<close> flag is set; the first error ends the call.
\<close>

definition checks ::
  "runtime \<Rightarrow> int \<Rightarrow> ('e, 'v) Alexa \<Rightarrow> RequestEnvelope option \<Rightarrow> 'e error option outcome" where
  "checks rt tolerance alexa requestEnv =
     (case (if \<not> IgnoreApplicationID alexa then verifyApplicationID alexa requestEnv
            else Done None) of
        Panic \<Rightarrow> Panic
      | Done (Some err) \<Rightarrow> Done (Some err)
      | Done None \<Rightarrow>
          (if \<not> IgnoreTimestamp alexa then verifyTimestamp rt tolerance alexa requestEnv
           else Done None))"

subsection \<open>Processing a request\<close>

text \<open>
  What one call of \<^verbatim>\<open>ProcessRequest\<close> leaves behind: what it returned (a panic, or the
  pair of Go as a sum: \<open>Inl\<close> an error with no response envelope, \<open>Inr\<close> a response
  envelope with no error), the caller's envelope and the store after the call, and
  the callbacks it called.
\<close>

record ('e, 'v) run =
  result :: "('e error + ResponseEnvelope) outcome"
  envelope :: "RequestEnvelope option"
  store :: "(string, 'v) alist list"
  calls :: "'e trace"

definition writeBack :: "RequestEnvelope \<Rightarrow> 'v objects \<Rightarrow> RequestEnvelope" where
  "writeBack env st =
     env\<lparr>Session := Some (cb_session st), Request := cb_request st, Context := cb_context st\<rparr>"

definition defaultResponse :: Response where
  "defaultResponse =
     \<lparr>OutputSpeech = None, Card = None, Reprompt = None, Directives = [],
      ShouldEndSession = True\<rparr>"

text \<open>
  Lines 386 to 388: \<^verbatim>\<open>if session.Attributes == nil { session.Attributes = make(...) }\<close>.
  The new mapping takes the next address of the store.
\<close>

definition initAttributes ::
  "Session \<Rightarrow> (string, 'v) alist list \<Rightarrow> Session \<times> (string, 'v) alist list" where
  "initAttributes s hp =
     (if Attributes s = None then (s\<lparr>Attributes := Some (length hp)\<rparr>, hp @ [DAList.empty])
      else (s, hp))"

text \<open>
  A call through the handler interface; a \<^verbatim>\<open>nil\<close> handler panics. The error of the
  callback, if any, is what \<^verbatim>\<open>ProcessRequest\<close> returns.
\<close>

definition invoke ::
  "call \<Rightarrow> ('e, 'v) Alexa \<Rightarrow> 'v objects \<Rightarrow> 'e error option outcome \<times> 'v objects \<times> 'e trace" where
  "invoke c alexa st =
     (case RequestHandler alexa of
        None \<Rightarrow> (Panic, st, [])
      | Some h \<Rightarrow>
          (case callback_of c h st of
             (err, st') \<Rightarrow> (Done (map_option ErrCallback err), st', [(c, err)])))"

text \<open>Lines 399 to 405: a new session is announced to \<^verbatim>\<open>OnSessionStarted\<close>.\<close>

definition startSession ::
  "('e, 'v) Alexa \<Rightarrow> 'v objects \<Rightarrow> 'e error option outcome \<times> 'v objects \<times> 'e trace" where
  "startSession alexa st =
     (if New (cb_session st) then invoke CallOnSessionStarted alexa st
      else (Done None, st, []))"

text \<open>
  Lines 407 to 426: the switch on the type of the request, read through the pointer of
  the envelope after \<^verbatim>\<open>OnSessionStarted\<close> has run.
\<close>

definition dispatch ::
  "('e, 'v) Alexa \<Rightarrow> 'v objects \<Rightarrow> 'e error option outcome \<times> 'v objects \<times> 'e trace" where
  "dispatch alexa st =
     (case cb_request st of
        None \<Rightarrow> (Panic, st, [])
      | Some q \<Rightarrow>
          if Type q = launchRequestName then invoke CallOnLaunch alexa st
          else if Type q = intentRequestName then invoke CallOnIntent alexa st
          else if Type q = sessionEndedRequestName then invoke CallOnSessionEnded alexa st
          else (Done None, st, []))"

text \<open>
  Lines 430 to 433, the loop that copies the session attributes: the entries of the session's mapping,
  in the order the iteration visits them, each stored in the mapping of the response
  envelope.
\<close>

fun copyAttributes :: "(string \<times> 'v) list \<Rightarrow> (string, 'v) alist \<Rightarrow> (string, 'v) alist" where
  "copyAttributes [] out = out"
| "copyAttributes ((n, v) # rest) out = copyAttributes rest (DAList.update n v out)"

text \<open>
  Lines 429 to 435, the end of \<^verbatim>\<open>ProcessRequest\<close>: a new mapping for the response envelope, filled from
  the session's mapping (no entry when that is \<^verbatim>\<open>nil\<close>). An address outside the store
  is no reference a Go program can hold; the model stops there.
\<close>

definition respond :: "'v objects \<Rightarrow> (ResponseEnvelope \<times> (string, 'v) alist list) outcome" where
  "respond st =
     (let hp = cb_store st;
          responseEnv = \<lparr>Response_Version = sdkVersion, SessionAttributes = Some (length hp),
                         Response = cb_response st\<rparr>
      in case Attributes (cb_session st) of
           None \<Rightarrow> Done (responseEnv, hp @ [DAList.empty])
         | Some a \<Rightarrow>
             if a < length hp
             then Done (responseEnv, hp @ [copyAttributes (DAList.impl_of (hp ! a)) DAList.empty])
             else Panic)"

definition leave ::
  "('e error + ResponseEnvelope) outcome \<Rightarrow> RequestEnvelope option \<Rightarrow> (string, 'v) alist list \<Rightarrow>
   'e trace \<Rightarrow> ('e, 'v) run" where
  "leave r env hp t = \<lparr>result = r, envelope = env, store = hp, calls = t\<rparr>"

text \<open>
  Lines 384 to 396, the objects as \<^verbatim>\<open>ProcessRequest\<close> sets them up before the first callback: the
  request and the context of the envelope, the session with its attribute mapping
  made if it was \<^verbatim>\<open>nil\<close>, and a new response that ends the session.
\<close>

definition prepare :: "RequestEnvelope \<Rightarrow> Session \<Rightarrow> (string, 'v) alist list \<Rightarrow> 'v objects" where
  "prepare env s hp =
     (case initAttributes s hp of
        (s1, hp1) \<Rightarrow>
          \<lparr>cb_request = Request env, cb_session = s1, cb_context = Context env,
           cb_response = defaultResponse, cb_store = hp1\<rparr>)"

text \<open>
  \<^verbatim>\<open>ProcessRequest\<close> once both checks have passed (lines 384 to 436). Whatever the
  callbacks did to the objects stays done when the call ends early.
\<close>

definition serve :: "('e, 'v) Alexa \<Rightarrow> RequestEnvelope \<Rightarrow> (string, 'v) alist list \<Rightarrow> ('e, 'v) run" where
  "serve alexa env hp =
     (case Session env of
        None \<Rightarrow> leave Panic (Some env) hp []
      | Some s \<Rightarrow>
          (case startSession alexa (prepare env s hp) of
             (r1, st1, t1) \<Rightarrow>
               (case r1 of
                  Panic \<Rightarrow> leave Panic (Some (writeBack env st1)) (cb_store st1) t1
                | Done (Some err) \<Rightarrow>
                    leave (Done (Inl err)) (Some (writeBack env st1)) (cb_store st1) t1
                | Done None \<Rightarrow>
                    (case dispatch alexa st1 of
                       (r2, st2, t2) \<Rightarrow>
                         (case r2 of
                            Panic \<Rightarrow>
                              leave Panic (Some (writeBack env st2)) (cb_store st2) (t1 @ t2)
                          | Done (Some err) \<Rightarrow>
                              leave (Done (Inl err)) (Some (writeBack env st2)) (cb_store st2)
                                (t1 @ t2)
                          | Done None \<Rightarrow>
                              (case respond st2 of
                                 Panic \<Rightarrow>
                                   leave Panic (Some (writeBack env st2)) (cb_store st2) (t1 @ t2)
                               | Done (responseEnv, hp3) \<Rightarrow>
                                   leave (Done (Inr responseEnv)) (Some (writeBack env st2)) hp3
                                     (t1 @ t2)))))))"

text \<open>\<^verbatim>\<open>ProcessRequest\<close> (lines 364 to 436).\<close>

definition ProcessRequest ::
  "runtime \<Rightarrow> int \<Rightarrow> ('e, 'v) Alexa \<Rightarrow> RequestEnvelope option \<Rightarrow> (string, 'v) alist list \<Rightarrow>
   ('e, 'v) run" where
  "ProcessRequest rt tolerance alexa requestEnv hp =
     (case requestEnv of
        None \<Rightarrow> leave (Done (Inl ErrRequestEnvelopeNil)) None hp []
      | Some env \<Rightarrow>
          (case checks rt tolerance alexa requestEnv of
             Panic \<Rightarrow> leave Panic requestEnv hp []
           | Done (Some err) \<Rightarrow> leave (Done (Inl err)) requestEnv hp []
           | Done None \<Rightarrow> serve alexa env hp))"

subsection \<open>Notions used by the properties\<close>

text \<open>The directive a call of one of the two adding helpers stores.\<close>

fun directive_of :: "add_call \<Rightarrow> directive" where
  "directive_of (CallAddAudioPlayer t b k u off) =
     AudioPlayerD \<lparr>Audio_Type = t, Audio_PlayBehavior = b,
       AudioItem = Some \<lparr>Stream = \<lparr>Stream_Token = k, URL = u,
         Stream_OffsetInMilliseconds = off\<rparr>\<rparr>\<rparr>"
| "directive_of (CallAddDialogDirective t e c i) =
     DialogD \<lparr>Dialog_Type = t, SlotToElicit = e, SlotToConfirm = c, UpdatedIntent = i\<rparr>"

text \<open>
  In Go a reference is \<^verbatim>\<open>nil\<close> or leads to a live object: the attribute mapping of a
  session, when there is one, is in the store.
\<close>

definition wf_objects :: "'v objects \<Rightarrow> bool" where
  "wf_objects st =
     (case Attributes (cb_session st) of None \<Rightarrow> True | Some a \<Rightarrow> a < length (cb_store st))"


subsection \<open>Concrete requests and handlers\<close>

text \<open>
  A run-time whose parser knows one timestamp, whose clock stands one minute after
  it, and whose arithmetic is exact.
\<close>

definition exampleRuntime :: runtime where
  "exampleRuntime =
     \<lparr>time_Parse = (\<lambda>s. if s = ''2017-06-01T12:00:00Z'' then Inr 1496318400000000000
                         else Inl ''cannot parse''),
      time_Now = 1496318460000000000,
      float64 = (\<lambda>x. x)\<rparr>"

text \<open>The same, with the clock a thousand seconds after the timestamp.\<close>

definition laterRuntime :: runtime where
  "laterRuntime = exampleRuntime\<lparr>time_Now := 1496319400000000000\<rparr>"

definition exampleSession :: "bool \<Rightarrow> string \<Rightarrow> Session" where
  "exampleSession new appID =
     \<lparr>New = new, SessionID = ''session-1'',
      Application = \<lparr>Application_ApplicationID = appID\<rparr>,
      Attributes = None,
      User = \<lparr>User_UserID = ''user-1'', User_AccessToken = ''''\<rparr>\<rparr>"

definition exampleRequest :: "string \<Rightarrow> string \<Rightarrow> Request" where
  "exampleRequest type timestamp =
     \<lparr>Locale = ''en-US'', Timestamp = timestamp, Type = type, RequestID = ''request-1'',
      DialogState = '''',
      Intent = \<lparr>Intent_Name = ''HelloIntent'', Intent_ConfirmationStatus = ''NONE'',
                Slots = Map.empty\<rparr>,
      Request_Name = '''', Reason = ''''\<rparr>"

definition exampleContext :: Context where
  "exampleContext =
     \<lparr>AudioPlayer = \<lparr>AudioPlayer_Token = '''', AudioPlayer_OffsetInMilliseconds = 0,
                     AudioPlayer_PlayerActivity = ''IDLE''\<rparr>,
      Display = \<lparr>Display_Token = ''''\<rparr>,
      System = \<lparr>System_ApplicationID = ''amzn1.ask.skill.example'', System_UserID = ''user-1'',
                System_AccessToken = '''', System_DeviceID = ''device-1'',
                System_TemplateVersion = '''', System_MarkupVersion = '''',
                APIEndpoint = ''https://api.amazonalexa.com'', APIAccessToken = ''''\<rparr>\<rparr>"

definition exampleEnvelope :: "Session \<Rightarrow> Request \<Rightarrow> RequestEnvelope" where
  "exampleEnvelope s q =
     \<lparr>Version = ''1.0'', Session = Some s, Request = Some q, Context = Some exampleContext\<rparr>"

definition silent :: "(string, string) callback" where
  "silent st = (None, st)"

definition speak :: "string \<Rightarrow> (string, string) callback" where
  "speak text st = (None, st\<lparr>cb_response := SetOutputSpeech (cb_response st) text\<rparr>)"

definition refuse :: "string \<Rightarrow> (string, string) callback" where
  "refuse msg st = (Some msg, st)"



definition exampleHandler :: "(string, string) RequestHandler" where
  "exampleHandler =
     \<lparr>OnSessionStarted = silent, OnLaunch = speak ''Welcome'', OnIntent = speak ''Hello'',
      OnSessionEnded = silent\<rparr>"

definition exampleAlexa :: "(string, string) RequestHandler \<Rightarrow> (string, string) Alexa" where
  "exampleAlexa h =
     \<lparr>ApplicationID = ''amzn1.ask.skill.example'', RequestHandler = Some h,
      IgnoreApplicationID = False, IgnoreTimestamp = False\<rparr>"

section \<open>Properties\<close>

subsection \<open>Auxiliary facts\<close>

lemma Directives_apply_call: "Directives (apply_call r c) = Directives r @ [directive_of c]"
  by (cases c) (simp_all add: AddAudioPlayer_def AddDialogDirective_def)

lemma Directives_apply_calls: "Directives (apply_calls r cs) = Directives r @ map directive_of cs"
  by (induction cs arbitrary: r) (simp_all add: Directives_apply_call)

lemma invoke_error: "invoke c alexa st = (Done (Some e), st', t) \<Longrightarrow> \<exists>x. e = ErrCallback x"
  by (auto simp: invoke_def split: option.splits prod.splits)

lemma startSession_error:
  "startSession alexa st = (Done (Some e), st', t) \<Longrightarrow> \<exists>x. e = ErrCallback x"
  by (auto simp: startSession_def dest: invoke_error split: if_splits)

lemma dispatch_error:
  "dispatch alexa st = (Done (Some e), st', t) \<Longrightarrow> \<exists>x. e = ErrCallback x"
  by (auto simp: dispatch_def dest: invoke_error split: if_splits option.splits)

lemma serve_error: "result (serve alexa env hp) = Done (Inl e) \<Longrightarrow> \<exists>x. e = ErrCallback x"
  unfolding serve_def leave_def Let_def
  by (auto split: option.splits prod.splits outcome.splits
      dest: startSession_error dispatch_error)

lemma verifyTimestamp_not_identity:
  "verifyTimestamp rt tol alexa (Some env) = Done (Some e) \<Longrightarrow> \<not> identity_error e"
  by (auto simp: verifyTimestamp_def Let_def split: option.splits sum.splits if_splits)

lemma verifyApplicationID_Some:
  "Session env = Some s \<Longrightarrow>
   verifyApplicationID alexa (Some env) =
     (if ApplicationID alexa = '''' then Done (Some ErrApplicationIDEmpty)
      else if Application_ApplicationID (Application s) = ''''
        then Done (Some ErrRequestApplicationIDEmpty)
      else if ApplicationID alexa \<noteq> Application_ApplicationID (Application s)
        then Done (Some ErrApplicationIDMismatch)
      else Done None)"
  by (simp add: verifyApplicationID_def)


lemma ProcessRequest_failed:
  "checks rt tol alexa (Some env) = Done (Some e) \<Longrightarrow>
   ProcessRequest rt tol alexa (Some env) hp =
     \<lparr>result = Done (Inl e), envelope = Some env, store = hp, calls = []\<rparr>"
  by (simp add: ProcessRequest_def leave_def)

lemma ProcessRequest_passed:
  "checks rt tol alexa (Some env) = Done None \<Longrightarrow>
   ProcessRequest rt tol alexa (Some env) hp = serve alexa env hp"
  by (simp add: ProcessRequest_def)

lemmas example_defs =
  exampleRuntime_def exampleSession_def exampleRequest_def exampleEnvelope_def
  exampleHandler_def exampleAlexa_def silent_def speak_def

lemma example_checks:
  "checks exampleRuntime timestampTolerance (exampleAlexa h)
     (Some (exampleEnvelope (exampleSession new ''amzn1.ask.skill.example'')
        (exampleRequest type ''2017-06-01T12:00:00Z''))) = Done None"
  by (simp add: checks_def verifyApplicationID_def verifyTimestamp_def time_Sub_def Seconds_def
      minDuration_def maxDuration_def Second_def signed_divide_int_def signed_modulo_int_def
      timestampTolerance_def example_defs)

text \<open>The comparison of \<^verbatim>\<open>verifyTimestamp\<close>, under the two assumptions on \<open>float64\<close>.\<close>

lemma binary64_int: "\<bar>n\<bar> \<le> 2 ^ 53 \<Longrightarrow> binary64 (of_int n)"
  unfolding binary64_def by (rule exI [of _ n], rule exI [of _ 0]) simp

lemma binary64_frac: "\<bar>n\<bar> \<le> 2 ^ 53 \<Longrightarrow> binary64 (of_int n / 2 ^ 30)"
  unfolding binary64_def by (rule exI [of _ n], rule exI [of _ 30]) simp

lemma binary64_uminus: "binary64 x \<Longrightarrow> binary64 (- x)"
  unfolding binary64_def
proof (elim exE conjE)
  fix m :: int and k :: nat
  assume "\<bar>m\<bar> \<le> 2 ^ 53" "k \<le> 1074" "x = of_int m / 2 ^ k"
  then have "\<bar>- m\<bar> \<le> 2 ^ 53 \<and> k \<le> 1074 \<and> - x = of_int (- m) / 2 ^ k" by simp
  then show "\<exists>m k. \<bar>m\<bar> \<le> 2 ^ 53 \<and> k \<le> 1074 \<and> - x = real_of_int m / 2 ^ k" by blast
qed

lemma seconds_nonneg:
  fixes g :: "real \<Rightarrow> real" and s n T :: int
  assumes mono: "mono g" and exact: "\<forall>x. binary64 x \<longrightarrow> g x = x"
    and s: "0 \<le> s" "s \<le> 2 ^ 40" and n: "0 \<le> n" "n < 1000000000"
    and T: "0 \<le> T" "T < 2 ^ 23"
  shows "0 \<le> g (of_int s + g (of_int n / 1000000000)) \<and>
         (g (of_int s + g (of_int n / 1000000000)) > of_int T \<longleftrightarrow>
          s * 1000000000 + n > T * 1000000000)"
proof -
  define q where "q = g (of_int n / 1000000000)"
  define v where "v = g (of_int s + q)"
  have fix_int: "g (of_int k) = of_int k" if "\<bar>k\<bar> \<le> 2 ^ 53" for k :: int
    using exact binary64_int [OF that] by blast
  have fix_frac: "g (of_int k / 2 ^ 30) = of_int k / 2 ^ 30" if "\<bar>k\<bar> \<le> 2 ^ 53" for k :: int
    using exact binary64_frac [OF that] by blast
  have g0: "g 0 = 0" using fix_int [of 0] by simp
  have q0: "0 \<le> q"
  proof -
    have "g 0 \<le> g (of_int n / 1000000000)" using n by (intro monoD [OF mono]) simp
    then show ?thesis by (simp add: q_def g0)
  qed
  have q1: "q \<le> 1073741823 / 1073741824"
  proof -
    have "real_of_int n \<le> 999999999" using n by simp
    then have "real_of_int n / 1000000000 \<le> of_int 1073741823 / 2 ^ 30" by simp
    then have "g (of_int n / 1000000000) \<le> g (of_int 1073741823 / 2 ^ 30)"
      by (rule monoD [OF mono])
    also have "\<dots> = of_int 1073741823 / 2 ^ 30" by (rule fix_frac) simp
    finally show ?thesis by (simp add: q_def)
  qed
  have qpos: "1 / 1073741824 \<le> q" if "1 \<le> n"
  proof -
    have "1 \<le> real_of_int n" using that by simp
    then have "of_int 1 / 2 ^ 30 \<le> real_of_int n / 1000000000" by simp
    then have "g (of_int 1 / 2 ^ 30) \<le> g (of_int n / 1000000000)"
      by (rule monoD [OF mono])
    moreover have "g (of_int 1 / 2 ^ 30) = of_int 1 / 2 ^ 30" by (rule fix_frac) simp
    ultimately show ?thesis by (simp add: q_def)
  qed
  have qzero: "q = 0" if "n = 0" using that by (simp add: q_def g0)
  have s53: "\<bar>s\<bar> \<le> 2 ^ 53" using s by simp
  have vs: "of_int s \<le> v"
  proof -
    have "g (of_int s) \<le> g (of_int s + q)" using q0 by (intro monoD [OF mono]) simp
    then show ?thesis by (simp add: v_def fix_int [OF s53])
  qed
  have T53: "\<bar>T\<bar> \<le> 2 ^ 53" using T by simp
  have "v > of_int T \<longleftrightarrow> s * 1000000000 + n > T * 1000000000"
  proof
    assume gt: "s * 1000000000 + n > T * 1000000000"
    with n have "s \<ge> T" by linarith
    show "v > of_int T"
    proof (cases "s = T")
      case False
      with \<open>s \<ge> T\<close> have "T + 1 \<le> s" by simp
      then have "real_of_int T + 1 \<le> of_int s" by linarith
      with vs show ?thesis by linarith
    next
      case True
      with gt have "1 \<le> n" by simp
      then have "1 / 1073741824 \<le> q" by (rule qpos)
      then have "of_int (T * 1073741824 + 1) / 2 ^ 30 \<le> of_int s + q"
        using True by (simp add: field_simps)
      then have "g (of_int (T * 1073741824 + 1) / 2 ^ 30) \<le> g (of_int s + q)"
        by (rule monoD [OF mono])
      moreover have "g (of_int (T * 1073741824 + 1) / 2 ^ 30) = of_int (T * 1073741824 + 1) / 2 ^ 30"
        using T by (intro fix_frac) simp
      ultimately have "of_int (T * 1073741824 + 1) / 2 ^ 30 \<le> v" by (simp add: v_def)
      then show ?thesis by (simp add: field_simps)
    qed
  next
    assume gt: "v > of_int T"
    show "s * 1000000000 + n > T * 1000000000"
    proof (rule ccontr)
      assume "\<not> s * 1000000000 + n > T * 1000000000"
      then have le: "s * 1000000000 + n \<le> T * 1000000000" by simp
      with n have "s \<le> T" by linarith
      have "of_int s + q \<le> of_int T"
      proof (cases "s = T")
        case True
        with le n have "n = 0" by simp
        then show ?thesis using True by (simp add: qzero)
      next
        case False
        with \<open>s \<le> T\<close> have "s + 1 \<le> T" by simp
        then have "real_of_int s + 1 \<le> of_int T" by linarith
        with q1 show ?thesis by linarith
      qed
      then have "g (of_int s + q) \<le> g (of_int T)" by (rule monoD [OF mono])
      then have "v \<le> of_int T" by (simp add: v_def fix_int [OF T53])
      with gt show False by simp
    qed
  qed
  moreover have "0 \<le> v" using vs s by linarith
  ultimately show ?thesis by (simp add: v_def q_def)
qed


lemma exceeds_iff:
  assumes mono: "mono (float64 rt)" and exact: "\<forall>x. binary64 x \<longrightarrow> float64 rt x = x"
    and d: "minDuration \<le> d" "d \<le> maxDuration" and T: "tol < 2 ^ 23"
  shows "\<bar>Seconds rt d\<bar> > float64 rt (of_int tol) \<longleftrightarrow> \<bar>d\<bar> > tol * Second"
proof -
  define fl where "fl = float64 rt"
  have fix_int: "fl (of_int k) = of_int k" if "\<bar>k\<bar> \<le> 2 ^ 53" for k :: int
    using exact binary64_int [OF that] by (simp add: fl_def)
  have dd: "- 9223372036854775808 \<le> d" "d \<le> 9223372036854775807"
    using d by (simp_all add: minDuration_def maxDuration_def)
  show ?thesis
  proof (cases "tol < 0")
    case True
    then have "real_of_int tol \<le> of_int (- 1)" by simp
    then have "fl (of_int tol) \<le> fl (of_int (- 1))"
      unfolding fl_def by (rule monoD [OF mono])
    also have "\<dots> = of_int (- 1)" by (rule fix_int) simp
    finally have "fl (of_int tol) < 0" by simp
    moreover have "0 \<le> \<bar>Seconds rt d\<bar>" by simp
    ultimately have "\<bar>Seconds rt d\<bar> > float64 rt (of_int tol)" by (simp add: fl_def)
    moreover have "tol * Second < 0" using True by (simp add: Second_def)
    then have "\<bar>d\<bar> > tol * Second" by linarith
    ultimately show ?thesis by simp
  next
    case False
    then have T0: "0 \<le> tol" by simp
    have flT: "fl (of_int tol) = of_int tol" using T0 T by (intro fix_int) simp
    show ?thesis
    proof (cases "0 \<le> d")
      case True
      define s where "s = d div 1000000000"
      define n where "n = d mod 1000000000"
      have sd: "d sdiv Second = s" "d smod Second = n"
        using True by (simp_all add: signed_divide_int_def signed_modulo_int_def Second_def
            s_def n_def sgn_if)
      have dsn: "d = s * 1000000000 + n" by (simp add: s_def n_def)
      have s: "0 \<le> s" "s \<le> 2 ^ 40" using True dd by (simp_all add: s_def)
      have n: "0 \<le> n" "n < 1000000000" by (simp_all add: n_def)
      have "Seconds rt d = fl (of_int s + fl (of_int n / 1000000000))"
        using s n by (simp add: Seconds_def sd fl_def [symmetric] fix_int)
      moreover from seconds_nonneg [OF mono exact s n T0 T]
      have "0 \<le> fl (of_int s + fl (of_int n / 1000000000))"
        and "fl (of_int s + fl (of_int n / 1000000000)) > of_int tol \<longleftrightarrow>
          s * 1000000000 + n > tol * 1000000000"
        by (simp_all add: fl_def)
      ultimately show ?thesis using True dsn flT by (simp add: fl_def Second_def)
    next
      case False
      define s where "s = (- d) div 1000000000"
      define n where "n = (- d) mod 1000000000"
      define g where "g = (\<lambda>x. - fl (- x))"
      have sd: "d sdiv Second = - s" "d smod Second = - n"
        using False by (simp_all add: signed_divide_int_def signed_modulo_int_def Second_def
            s_def n_def sgn_if)
      have dsn: "- d = s * 1000000000 + n" by (simp add: s_def n_def)
      have s: "0 \<le> s" "s \<le> 2 ^ 40" using False dd by (simp_all add: s_def)
      have n: "0 \<le> n" "n < 1000000000" by (simp_all add: n_def)
      have gmono: "mono g"
        unfolding g_def fl_def by (rule monoI) (simp add: monoD [OF mono])
      have gexact: "\<forall>x. binary64 x \<longrightarrow> g x = x"
        using exact binary64_uminus by (auto simp: g_def fl_def)
      have fix_neg: "fl (- of_int k) = - of_int k" if "\<bar>k\<bar> \<le> 2 ^ 53" for k :: int
        using fix_int [of "- k"] that by simp
      have "Seconds rt d = fl (fl (- of_int s) + fl (fl (- of_int n) / 1000000000))"
        by (simp add: Seconds_def sd fl_def [symmetric])
      also have "fl (- of_int s) = - of_int s" using s by (intro fix_neg) simp
      also have "fl (- of_int n) = - of_int n" using n by (intro fix_neg) simp
      finally have "Seconds rt d = fl (- of_int s + fl (- of_int n / 1000000000))" .
      also have "\<dots> = - g (of_int s + g (of_int n / 1000000000))"
        by (simp add: g_def)
      finally have sec: "Seconds rt d = - g (of_int s + g (of_int n / 1000000000))" .
      from seconds_nonneg [OF gmono gexact s n T0 T]
      have "0 \<le> g (of_int s + g (of_int n / 1000000000))"
        and "g (of_int s + g (of_int n / 1000000000)) > of_int tol \<longleftrightarrow>
          s * 1000000000 + n > tol * 1000000000"
        by simp_all
      then show ?thesis using False dsn flT sec by (simp add: fl_def Second_def)
    qed
  qed
qed

lemma time_Sub_range: "minDuration \<le> time_Sub t u \<and> time_Sub t u \<le> maxDuration"
  by (simp add: time_Sub_def Let_def minDuration_def maxDuration_def)

lemma time_Sub_abs:
  assumes "tol < 2 ^ 23"
  shows "\<bar>time_Sub t u\<bar> > tol * Second \<longleftrightarrow> \<bar>t - u\<bar> > tol * Second"
proof -
  have "tol * Second < 8388608000000000" using assms by (simp add: Second_def)
  then show ?thesis
    by (auto simp: time_Sub_def Let_def minDuration_def maxDuration_def)
qed

lemma verifyTimestamp_tolerance:
  assumes "mono (float64 rt)" and "\<forall>x. binary64 x \<longrightarrow> float64 rt x = x"
    and "Request env = Some q" and "time_Parse rt (Timestamp q) = Inr timestamp"
    and "tol < 2 ^ 23"
  shows "verifyTimestamp rt tol alexa (Some env) =
           (if \<bar>time_Now rt - timestamp\<bar> > tol * Second
            then Done (Some (ErrTimestampTolerance timestamp (time_Now rt) tol))
            else Done None)"
proof -
  have "\<bar>Seconds rt (time_Sub (time_Now rt) timestamp)\<bar> > float64 rt (of_int tol) \<longleftrightarrow>
        \<bar>time_Now rt - timestamp\<bar> > tol * Second"
    using exceeds_iff [OF assms(1,2) _ _ assms(5), of "time_Sub (time_Now rt) timestamp"]
      time_Sub_range [of "time_Now rt" timestamp] time_Sub_abs [OF assms(5), of "time_Now rt" timestamp]
    by simp
  then show ?thesis using assms(3,4) by (simp add: verifyTimestamp_def Let_def)
qed




lemma prepare_simps:
  "cb_request (prepare env s hp) = Request env"
  "cb_context (prepare env s hp) = Context env"
  "cb_response (prepare env s hp) = defaultResponse"
  "New (cb_session (prepare env s hp)) = New s"
  by (simp_all add: prepare_def initAttributes_def)


lemma invoke_Some:
  "RequestHandler alexa = Some h \<Longrightarrow>
   invoke c alexa st =
     (Done (map_option ErrCallback (fst (callback_of c h st))), snd (callback_of c h st),
      [(c, fst (callback_of c h st))])"
  by (simp add: invoke_def split: prod.splits)




lemma dispatch_trace:
  "dispatch alexa st = (r, st', t) \<Longrightarrow> length t \<le> 1 \<and> CallOnSessionStarted \<notin> fst ` set t"
  by (auto simp: dispatch_def invoke_def split: if_splits option.splits prod.splits)






lemmas run_defs =
  serve_def prepare_def initAttributes_def startSession_def dispatch_def invoke_def
  respond_def leave_def writeBack_def defaultResponse_def SetOutputSpeech_def sdkVersion_def
  launchRequestName_def intentRequestName_def sessionEndedRequestName_def


subsection \<open>The accessor \<^verbatim>\<open>GetIntentName\<close>\<close>

text \<open>
  C9. For every request envelope (with its request present), \<^verbatim>\<open>GetIntentName\<close> returns
  the name of the intent when the type of the request is "IntentRequest", and the
  type of the request for every other type.
\<close>

theorem GetIntentName_result:
  "Request r = Some q \<Longrightarrow>
   GetIntentName r =
     Done (if Type q = ''IntentRequest'' then Intent_Name (Intent q) else Type q)"
  by (simp add: GetIntentName_def GetRequestType_def)

theorem GetIntentName_result_witness:
  "Request (exampleEnvelope (exampleSession False ''a'') (exampleRequest ''IntentRequest'' '''')) =
     Some (exampleRequest ''IntentRequest'' '''') \<and>
   GetIntentName (exampleEnvelope (exampleSession False ''a'') (exampleRequest ''IntentRequest'' ''''))
     = Done ''HelloIntent'' \<and>
   Request (exampleEnvelope (exampleSession False ''a'') (exampleRequest ''LaunchRequest'' '''')) =
     Some (exampleRequest ''LaunchRequest'' '''') \<and>
   GetIntentName (exampleEnvelope (exampleSession False ''a'') (exampleRequest ''LaunchRequest'' ''''))
     = Done ''LaunchRequest''"
proof -
  have h: "Request (exampleEnvelope s q) = Some q" for s q
    by (simp add: exampleEnvelope_def)
  show ?thesis
    using GetIntentName_result [OF h, of "exampleSession False ''a''"
        "exampleRequest ''IntentRequest'' ''''"]
      GetIntentName_result [OF h, of "exampleSession False ''a''"
        "exampleRequest ''LaunchRequest'' ''''"]
    by (simp add: exampleEnvelope_def exampleRequest_def)
qed

subsection \<open>Directives\<close>

text \<open>
  C8. For every response and every sequence of calls of \<^verbatim>\<open>AddAudioPlayer\<close> and
  \<^verbatim>\<open>AddDialogDirective\<close>, each call puts exactly one directive at the end of the
  directives of the response, and the directives already there stay as they were, in
  their order: after the calls the directives are those of the start followed by one
  directive per call, in the order of the calls.
\<close>

theorem directives_appended:
  "Directives (AddAudioPlayer r t b k u off) =
     Directives r @ [directive_of (CallAddAudioPlayer t b k u off)] \<and>
   Directives (AddDialogDirective r t e c i) =
     Directives r @ [directive_of (CallAddDialogDirective t e c i)] \<and>
   Directives (apply_calls r cs) = Directives r @ map directive_of cs \<and>
   Directives (apply_calls r (cs @ [x])) = Directives (apply_calls r cs) @ [directive_of x]"
  using Directives_apply_call [of r "CallAddAudioPlayer t b k u off"]
    Directives_apply_call [of r "CallAddDialogDirective t e c i"]
  by (simp add: Directives_apply_calls)

subsection \<open>Validation\<close>

text \<open>
  C3. For every request envelope (with its session present), when the identity check
  is not disabled, \<^verbatim>\<open>ProcessRequest\<close> fails with an application-identity error, and
  returns no response envelope, if and only if the configured application identifier
  is empty, the application identifier of the session is empty, or the two strings
  differ.
\<close>

theorem identity_check:
  assumes "\<not> IgnoreApplicationID alexa" and "Session env = Some s"
  shows "(\<exists>e. result (ProcessRequest rt tol alexa (Some env) hp) = Done (Inl e) \<and>
              identity_error e) \<longleftrightarrow>
         (ApplicationID alexa = '''' \<or> Application_ApplicationID (Application s) = '''' \<or>
          ApplicationID alexa \<noteq> Application_ApplicationID (Application s))"
proof (cases "verifyApplicationID alexa (Some env) = Done None")
  case True
  have no: "\<not> identity_error e"
    if "result (ProcessRequest rt tol alexa (Some env) hp) = Done (Inl e)" for e
  proof (cases "checks rt tol alexa (Some env)")
    case Panic
    with that show ?thesis by (simp add: ProcessRequest_def leave_def)
  next
    case (Done r)
    show ?thesis
    proof (cases r)
      case None
      with Done that have "result (serve alexa env hp) = Done (Inl e)"
        by (simp add: ProcessRequest_passed)
      then show ?thesis by (auto dest: serve_error)
    next
      case (Some e')
      with Done that have "e' = e" by (simp add: ProcessRequest_failed)
      moreover from Done Some True assms
      have "verifyTimestamp rt tol alexa (Some env) = Done (Some e')"
        by (simp add: checks_def split: if_splits)
      ultimately show ?thesis by (auto dest: verifyTimestamp_not_identity)
    qed
  qed
  from True assms
  have "\<not> (ApplicationID alexa = '''' \<or> Application_ApplicationID (Application s) = '''' \<or>
          ApplicationID alexa \<noteq> Application_ApplicationID (Application s))"
    by (simp add: verifyApplicationID_Some split: if_splits)
  with no show ?thesis by blast
next
  case False
  with assms obtain e
    where v: "verifyApplicationID alexa (Some env) = Done (Some e)" and i: "identity_error e"
    by (auto simp: verifyApplicationID_Some split: if_splits)
  from v assms have "checks rt tol alexa (Some env) = Done (Some e)"
    by (simp add: checks_def)
  then have "result (ProcessRequest rt tol alexa (Some env) hp) = Done (Inl e)"
    by (simp add: ProcessRequest_failed)
  moreover from False assms
  have "ApplicationID alexa = '''' \<or> Application_ApplicationID (Application s) = '''' \<or>
          ApplicationID alexa \<noteq> Application_ApplicationID (Application s)"
    by (auto simp: verifyApplicationID_Some split: if_splits)
  ultimately show ?thesis using i by blast
qed

theorem identity_check_witness:
  "\<not> IgnoreApplicationID (exampleAlexa exampleHandler) \<and>
   Session (exampleEnvelope (exampleSession False ''amzn1.ask.skill.other'')
     (exampleRequest ''LaunchRequest'' ''2017-06-01T12:00:00Z'')) =
     Some (exampleSession False ''amzn1.ask.skill.other'') \<and>
   (\<exists>e. result (ProcessRequest exampleRuntime timestampTolerance (exampleAlexa exampleHandler)
           (Some (exampleEnvelope (exampleSession False ''amzn1.ask.skill.other'')
              (exampleRequest ''LaunchRequest'' ''2017-06-01T12:00:00Z''))) []) = Done (Inl e) \<and>
        identity_error e)"
proof -
  have h1: "\<not> IgnoreApplicationID (exampleAlexa exampleHandler)"
    by (simp add: exampleAlexa_def)
  have h2: "Session (exampleEnvelope (exampleSession False ''amzn1.ask.skill.other'')
     (exampleRequest ''LaunchRequest'' ''2017-06-01T12:00:00Z'')) =
     Some (exampleSession False ''amzn1.ask.skill.other'')"
    by (simp add: exampleEnvelope_def)
  show ?thesis
    using h1 h2 identity_check [OF h1 h2, of exampleRuntime timestampTolerance "[]"]
    by (simp add: exampleAlexa_def exampleSession_def)
qed




text \<open>
  The test of line 365 covers the envelope only. A session or a request that is absent
  is dereferenced where it is first read (lines 529 and 386, lines 550 and 407), and
  the call panics; the statement above says nothing of these envelopes.
\<close>

lemma absent_session_panics:
  assumes "Session env = None"
    and "\<not> IgnoreApplicationID alexa \<or> checks rt tol alexa (Some env) = Done None"
  shows "ProcessRequest rt tol alexa (Some env) hp =
           \<lparr>result = Panic, envelope = Some env, store = hp, calls = []\<rparr>"
  using assms
  by (auto simp: ProcessRequest_def checks_def verifyApplicationID_def serve_def leave_def)

lemma absent_request_panics:
  assumes "Request env = None" and "\<not> IgnoreTimestamp alexa"
    and "IgnoreApplicationID alexa \<or> verifyApplicationID alexa (Some env) = Done None"
  shows "ProcessRequest rt tol alexa (Some env) hp =
           \<lparr>result = Panic, envelope = Some env, store = hp, calls = []\<rparr>"
  using assms
  by (auto simp: ProcessRequest_def checks_def verifyTimestamp_def leave_def)

text \<open>
  C7. For every request whose timestamp is not well-formed RFC3339, when the timestamp
  check is not disabled and the identity check is disabled or passed,
  \<^verbatim>\<open>ProcessRequest\<close> fails with a parse error: it does not panic, returns no response
  envelope, changes nothing and calls no callback.
\<close>

theorem malformed_timestamp:
  assumes "Request env = Some q" and "time_Parse rt (Timestamp q) = Inl msg"
    and "\<not> IgnoreTimestamp alexa"
    and "IgnoreApplicationID alexa \<or> verifyApplicationID alexa (Some env) = Done None"
  shows "ProcessRequest rt tol alexa (Some env) hp =
           \<lparr>result = Done (Inl (ErrTimestampParse msg)), envelope = Some env, store = hp,
            calls = []\<rparr>"
proof -
  from assms have "checks rt tol alexa (Some env) = Done (Some (ErrTimestampParse msg))"
    by (auto simp: checks_def verifyTimestamp_def)
  then show ?thesis by (rule ProcessRequest_failed)
qed

theorem malformed_timestamp_witness:
  "Request (exampleEnvelope (exampleSession False ''amzn1.ask.skill.example'')
     (exampleRequest ''LaunchRequest'' ''yesterday'')) =
     Some (exampleRequest ''LaunchRequest'' ''yesterday'') \<and>
   time_Parse exampleRuntime (Timestamp (exampleRequest ''LaunchRequest'' ''yesterday'')) =
     Inl ''cannot parse'' \<and>
   \<not> IgnoreTimestamp (exampleAlexa exampleHandler) \<and>
   verifyApplicationID (exampleAlexa exampleHandler)
     (Some (exampleEnvelope (exampleSession False ''amzn1.ask.skill.example'')
        (exampleRequest ''LaunchRequest'' ''yesterday''))) = Done None \<and>
   result (ProcessRequest exampleRuntime timestampTolerance (exampleAlexa exampleHandler)
     (Some (exampleEnvelope (exampleSession False ''amzn1.ask.skill.example'')
        (exampleRequest ''LaunchRequest'' ''yesterday''))) []) =
     Done (Inl (ErrTimestampParse ''cannot parse''))"
proof -
  have h1: "Request (exampleEnvelope (exampleSession False ''amzn1.ask.skill.example'')
     (exampleRequest ''LaunchRequest'' ''yesterday'')) =
     Some (exampleRequest ''LaunchRequest'' ''yesterday'')"
    by (simp add: exampleEnvelope_def)
  have h2: "time_Parse exampleRuntime (Timestamp (exampleRequest ''LaunchRequest'' ''yesterday'')) =
     Inl ''cannot parse''"
    by (simp add: exampleRuntime_def exampleRequest_def)
  have h3: "\<not> IgnoreTimestamp (exampleAlexa exampleHandler)"
    by (simp add: exampleAlexa_def)
  have h4: "verifyApplicationID (exampleAlexa exampleHandler)
     (Some (exampleEnvelope (exampleSession False ''amzn1.ask.skill.example'')
        (exampleRequest ''LaunchRequest'' ''yesterday''))) = Done None"
    by (simp add: verifyApplicationID_def exampleAlexa_def exampleEnvelope_def
        exampleSession_def)
  show ?thesis
    using h1 h2 h3 h4
      malformed_timestamp [OF h1 h2 h3 disjI2 [OF h4], of timestampTolerance "[]"]
    by simp
qed

text \<open>
  With the identity check enabled and failing, a malformed timestamp is never looked
  at: the request below fails with the identity error.
\<close>

theorem malformed_timestamp_counterexample:
  "time_Parse exampleRuntime (Timestamp (exampleRequest ''LaunchRequest'' ''yesterday'')) =
     Inl ''cannot parse'' \<and>
   \<not> IgnoreTimestamp (exampleAlexa exampleHandler) \<and>
   result (ProcessRequest exampleRuntime timestampTolerance (exampleAlexa exampleHandler)
     (Some (exampleEnvelope (exampleSession False ''amzn1.ask.skill.other'')
        (exampleRequest ''LaunchRequest'' ''yesterday''))) []) =
     Done (Inl ErrApplicationIDMismatch) \<and>
   \<not> parse_error (ErrApplicationIDMismatch :: string error)"
  by (simp add: ProcessRequest_def checks_def verifyApplicationID_def leave_def example_defs)

text \<open>
  C4. For every request with a well-formed RFC3339 timestamp, when the timestamp check
  is not disabled, the identity check is disabled or passed, and the configured
  tolerance is below \<open>2 ^ 23\<close> seconds (the default is 150), \<^verbatim>\<open>ProcessRequest\<close> fails
  with a tolerance error if and only if the distance between the parsed timestamp and
  the current time is strictly more than the tolerance; at a distance equal to the
  tolerance, and at every smaller one, validation passes. The comparison of the source
  is made on \<^verbatim>\<open>float64\<close> values; it is assumed that rounding to \<^verbatim>\<open>float64\<close> is
  monotone and leaves the numbers in \<open>binary64\<close> as they are.
\<close>

theorem timestamp_tolerance:
  assumes "mono (float64 rt)" and "\<forall>x. binary64 x \<longrightarrow> float64 rt x = x"
    and "Request env = Some q" and "time_Parse rt (Timestamp q) = Inr timestamp"
    and "\<not> IgnoreTimestamp alexa"
    and "IgnoreApplicationID alexa \<or> verifyApplicationID alexa (Some env) = Done None"
    and "tol < 2 ^ 23"
  shows "((\<exists>e. result (ProcessRequest rt tol alexa (Some env) hp) = Done (Inl e) \<and>
               tolerance_error e) \<longleftrightarrow>
          \<bar>time_Now rt - timestamp\<bar> > tol * Second) \<and>
         (\<bar>time_Now rt - timestamp\<bar> \<le> tol * Second \<longrightarrow>
            checks rt tol alexa (Some env) = Done None)"
proof -
  let ?R = "ProcessRequest rt tol alexa (Some env) hp"
  have c: "checks rt tol alexa (Some env) =
           (if \<bar>time_Now rt - timestamp\<bar> > tol * Second
            then Done (Some (ErrTimestampTolerance timestamp (time_Now rt) tol))
            else Done None)"
    using assms(5,6) verifyTimestamp_tolerance [OF assms(1,2,3,4,7), of alexa]
    by (auto simp: checks_def)
  show ?thesis
  proof (cases "\<bar>time_Now rt - timestamp\<bar> > tol * Second")
    case True
    with c have "?R = \<lparr>result = Done (Inl (ErrTimestampTolerance timestamp (time_Now rt) tol)),
        envelope = Some env, store = hp, calls = []\<rparr>"
      by (simp add: ProcessRequest_failed)
    with True show ?thesis by simp
  next
    case False
    with c have p: "checks rt tol alexa (Some env) = Done None" by simp
    then have "?R = serve alexa env hp" by (rule ProcessRequest_passed)
    then have "\<not> tolerance_error e" if "result ?R = Done (Inl e)" for e
      using that by (auto dest: serve_error)
    with False p show ?thesis by auto
  qed
qed

theorem timestamp_tolerance_witness:
  "time_Parse exampleRuntime (Timestamp (exampleRequest ''LaunchRequest'' ''2017-06-01T12:00:00Z'')) =
     Inr 1496318400000000000 \<and>
   \<bar>time_Now exampleRuntime - 1496318400000000000\<bar> = 60 * Second \<and>
   \<not> IgnoreTimestamp (exampleAlexa exampleHandler) \<and>
   checks exampleRuntime 60 (exampleAlexa exampleHandler)
     (Some (exampleEnvelope (exampleSession False ''amzn1.ask.skill.example'')
        (exampleRequest ''LaunchRequest'' ''2017-06-01T12:00:00Z''))) = Done None \<and>
   (\<exists>e. result (ProcessRequest exampleRuntime 59 (exampleAlexa exampleHandler)
     (Some (exampleEnvelope (exampleSession False ''amzn1.ask.skill.example'')
        (exampleRequest ''LaunchRequest'' ''2017-06-01T12:00:00Z''))) []) = Done (Inl e) \<and>
     tolerance_error e)"
proof -
  let ?A = "exampleAlexa exampleHandler"
  let ?q = "exampleRequest ''LaunchRequest'' ''2017-06-01T12:00:00Z''"
  let ?env = "exampleEnvelope (exampleSession False ''amzn1.ask.skill.example'') ?q"
  have m: "mono (float64 exampleRuntime)"
    by (simp add: exampleRuntime_def mono_def)
  have x: "\<forall>x. binary64 x \<longrightarrow> float64 exampleRuntime x = x"
    by (simp add: exampleRuntime_def)
  have r: "Request ?env = Some ?q"
    by (simp add: exampleEnvelope_def)
  have p: "time_Parse exampleRuntime (Timestamp ?q) = Inr 1496318400000000000"
    by (simp add: exampleRuntime_def exampleRequest_def)
  have t: "\<not> IgnoreTimestamp ?A"
    by (simp add: exampleAlexa_def)
  have i: "IgnoreApplicationID ?A \<or> verifyApplicationID ?A (Some ?env) = Done None"
    by (simp add: verifyApplicationID_def exampleAlexa_def exampleEnvelope_def
        exampleSession_def)
  have d: "\<bar>time_Now exampleRuntime - 1496318400000000000\<bar> = 60 * Second"
    by (simp add: exampleRuntime_def Second_def)
  show ?thesis
    using p d t timestamp_tolerance [OF m x r p t i, of 60 "[]"]
      timestamp_tolerance [OF m x r p t i, of 59 "[]"]
    by (simp add: Second_def)
qed

text \<open>
  With the identity check enabled and failing, the timestamp is never looked at: the
  request below is a thousand seconds old and fails with the identity error.
\<close>

theorem timestamp_tolerance_counterexample:
  "time_Parse laterRuntime (Timestamp (exampleRequest ''LaunchRequest'' ''2017-06-01T12:00:00Z'')) =
     Inr 1496318400000000000 \<and>
   \<bar>time_Now laterRuntime - 1496318400000000000\<bar> > timestampTolerance * Second \<and>
   \<not> IgnoreTimestamp (exampleAlexa exampleHandler) \<and>
   result (ProcessRequest laterRuntime timestampTolerance (exampleAlexa exampleHandler)
     (Some (exampleEnvelope (exampleSession False ''amzn1.ask.skill.other'')
        (exampleRequest ''LaunchRequest'' ''2017-06-01T12:00:00Z''))) []) =
     Done (Inl ErrApplicationIDMismatch) \<and>
   \<not> tolerance_error (ErrApplicationIDMismatch :: string error)"
  by (simp add: ProcessRequest_def checks_def verifyApplicationID_def leave_def Second_def
      timestampTolerance_def laterRuntime_def example_defs)

text \<open>
  C10. For every request envelope on which \<^verbatim>\<open>ProcessRequest\<close> fails validation (with
  the nil-envelope error, an identity error or a timestamp error), the envelope and
  with it the session are left as they were, the store holds no new mapping (a
  \<^verbatim>\<open>nil\<close> attribute mapping is not initialised), and no callback is called.
\<close>

theorem failed_validation_untouched:
  assumes "result (ProcessRequest rt tol alexa requestEnv hp) = Done (Inl e)"
    and "validation_error e"
  shows "envelope (ProcessRequest rt tol alexa requestEnv hp) = requestEnv \<and>
         store (ProcessRequest rt tol alexa requestEnv hp) = hp \<and>
         calls (ProcessRequest rt tol alexa requestEnv hp) = []"
  using assms
  by (auto simp: ProcessRequest_def leave_def split: option.splits outcome.splits
      dest: serve_error)

theorem failed_validation_untouched_witness:
  "result (ProcessRequest exampleRuntime timestampTolerance (exampleAlexa exampleHandler)
     (Some (exampleEnvelope (exampleSession True ''amzn1.ask.skill.other'')
        (exampleRequest ''LaunchRequest'' ''2017-06-01T12:00:00Z''))) []) =
     Done (Inl ErrApplicationIDMismatch) \<and>
   validation_error (ErrApplicationIDMismatch :: string error) \<and>
   envelope (ProcessRequest exampleRuntime timestampTolerance (exampleAlexa exampleHandler)
     (Some (exampleEnvelope (exampleSession True ''amzn1.ask.skill.other'')
        (exampleRequest ''LaunchRequest'' ''2017-06-01T12:00:00Z''))) []) =
     Some (exampleEnvelope (exampleSession True ''amzn1.ask.skill.other'')
        (exampleRequest ''LaunchRequest'' ''2017-06-01T12:00:00Z'')) \<and>
   store (ProcessRequest exampleRuntime timestampTolerance (exampleAlexa exampleHandler)
     (Some (exampleEnvelope (exampleSession True ''amzn1.ask.skill.other'')
        (exampleRequest ''LaunchRequest'' ''2017-06-01T12:00:00Z''))) []) = [] \<and>
   calls (ProcessRequest exampleRuntime timestampTolerance (exampleAlexa exampleHandler)
     (Some (exampleEnvelope (exampleSession True ''amzn1.ask.skill.other'')
        (exampleRequest ''LaunchRequest'' ''2017-06-01T12:00:00Z''))) []) = []"
proof -
  have h1: "result (ProcessRequest exampleRuntime timestampTolerance (exampleAlexa exampleHandler)
     (Some (exampleEnvelope (exampleSession True ''amzn1.ask.skill.other'')
        (exampleRequest ''LaunchRequest'' ''2017-06-01T12:00:00Z''))) []) =
     Done (Inl ErrApplicationIDMismatch)"
    by (simp add: ProcessRequest_def checks_def verifyApplicationID_def leave_def example_defs)
  have h2: "validation_error (ErrApplicationIDMismatch :: string error)"
    by simp
  show ?thesis
    using h1 h2 failed_validation_untouched [OF h1 h2]
    by simp
qed

subsection \<open>Callbacks\<close>

text \<open>
  C2. For every request envelope that passes validation and whose session is new (a
  handler being configured), \<^verbatim>\<open>ProcessRequest\<close> calls \<^verbatim>\<open>OnSessionStarted\<close> exactly
  once, as the first call, before the at most one call that follows it; and if
  \<^verbatim>\<open>OnSessionStarted\<close> returns an error, no other callback is called and
  \<^verbatim>\<open>ProcessRequest\<close> returns that error with no response envelope.
\<close>

theorem session_started_first:
  assumes "checks rt tol alexa (Some env) = Done None"
    and "Session env = Some s" and "New s" and "RequestHandler alexa = Some h"
  shows "\<exists>rest.
           calls (ProcessRequest rt tol alexa (Some env) hp) =
             (CallOnSessionStarted, fst (OnSessionStarted h (prepare env s hp))) # rest \<and>
           length rest \<le> 1 \<and> CallOnSessionStarted \<notin> fst ` set rest \<and>
           (\<forall>e. fst (OnSessionStarted h (prepare env s hp)) = Some e \<longrightarrow>
              rest = [] \<and>
              result (ProcessRequest rt tol alexa (Some env) hp) = Done (Inl (ErrCallback e)))"
proof -
  let ?R = "ProcessRequest rt tol alexa (Some env) hp"
  let ?st0 = "prepare env s hp"
  obtain err st1 where cb: "OnSessionStarted h ?st0 = (err, st1)" by (cases "OnSessionStarted h ?st0")
  have R: "?R = serve alexa env hp" using assms(1) by (rule ProcessRequest_passed)
  have start: "startSession alexa ?st0 =
      (Done (map_option ErrCallback err), st1, [(CallOnSessionStarted, err)])"
    using assms(3,4) cb by (simp add: startSession_def prepare_simps invoke_Some)
  show ?thesis
  proof (cases err)
    case (Some e)
    with start assms(2) have "calls ?R = [(CallOnSessionStarted, Some e)]"
      "result ?R = Done (Inl (ErrCallback e))"
      by (simp_all add: R serve_def leave_def)
    with cb Some show ?thesis by simp
  next
    case None
    obtain r2 st2 t2 where disp: "dispatch alexa st1 = (r2, st2, t2)"
      by (cases "dispatch alexa st1")
    with start None assms(2) have "calls ?R = (CallOnSessionStarted, None) # t2"
      by (simp add: R serve_def leave_def split: outcome.splits option.splits prod.splits)
    with dispatch_trace [OF disp] cb None show ?thesis by simp
  qed
qed

theorem session_started_first_witness:
  "checks exampleRuntime timestampTolerance
     (exampleAlexa (exampleHandler\<lparr>OnSessionStarted := refuse ''no session store''\<rparr>))
     (Some (exampleEnvelope (exampleSession True ''amzn1.ask.skill.example'')
        (exampleRequest ''LaunchRequest'' ''2017-06-01T12:00:00Z''))) = Done None \<and>
   New (exampleSession True ''amzn1.ask.skill.example'') \<and>
   calls (ProcessRequest exampleRuntime timestampTolerance
     (exampleAlexa (exampleHandler\<lparr>OnSessionStarted := refuse ''no session store''\<rparr>))
     (Some (exampleEnvelope (exampleSession True ''amzn1.ask.skill.example'')
        (exampleRequest ''LaunchRequest'' ''2017-06-01T12:00:00Z''))) []) =
     [(CallOnSessionStarted, Some ''no session store'')] \<and>
   result (ProcessRequest exampleRuntime timestampTolerance
     (exampleAlexa (exampleHandler\<lparr>OnSessionStarted := refuse ''no session store''\<rparr>))
     (Some (exampleEnvelope (exampleSession True ''amzn1.ask.skill.example'')
        (exampleRequest ''LaunchRequest'' ''2017-06-01T12:00:00Z''))) []) =
     Done (Inl (ErrCallback ''no session store'')) \<and>
   (\<exists>rest. calls (ProcessRequest exampleRuntime timestampTolerance (exampleAlexa exampleHandler)
     (Some (exampleEnvelope (exampleSession True ''amzn1.ask.skill.example'')
        (exampleRequest ''LaunchRequest'' ''2017-06-01T12:00:00Z''))) []) =
     (CallOnSessionStarted, None) # rest \<and> length rest \<le> 1 \<and>
     CallOnSessionStarted \<notin> fst ` set rest)"
proof -
  let ?h = "exampleHandler\<lparr>OnSessionStarted := refuse ''no session store''\<rparr>"
  let ?s = "exampleSession True ''amzn1.ask.skill.example''"
  let ?q = "exampleRequest ''LaunchRequest'' ''2017-06-01T12:00:00Z''"
  have c: "checks exampleRuntime timestampTolerance (exampleAlexa h)
      (Some (exampleEnvelope ?s ?q)) = Done None" for h
    by (rule example_checks)
  have s: "Session (exampleEnvelope ?s ?q) = Some ?s"
    by (simp add: exampleEnvelope_def)
  have n: "New ?s" by (simp add: exampleSession_def)
  have h: "RequestHandler (exampleAlexa h) = Some h" for h
    by (simp add: exampleAlexa_def)
  show ?thesis
    using c [of ?h] n session_started_first [OF c s n h, of ?h "[]"]
      session_started_first [OF c s n h, of exampleHandler "[]"]
    by (auto simp: exampleHandler_def refuse_def silent_def)
qed

text \<open>
  C1. For every request envelope that passes validation (a handler being configured;
  the request present and the attribute mapping of the session, if any, in the store
  when the switch is reached): when the session is new, \<^verbatim>\<open>OnSessionStarted\<close> is called first, and if it returns an
  error nothing else is called. Otherwise \<^verbatim>\<open>ProcessRequest\<close> calls exactly one
  callback chosen by the type of the request as it stands then: \<^verbatim>\<open>OnLaunch\<close> for
  "LaunchRequest", \<^verbatim>\<open>OnIntent\<close> for "IntentRequest", \<^verbatim>\<open>OnSessionEnded\<close> for
  "SessionEndedRequest"; for any other type none of these three is called and the
  response envelope returned holds the response as \<^verbatim>\<open>OnSessionStarted\<close> left it,
  which is the default response (no output speech, no card, the session to end) when
  the session is not new.
\<close>

theorem dispatch_by_type:
  assumes "checks rt tol alexa (Some env) = Done None"
    and "Session env = Some s" and "RequestHandler alexa = Some h"
    and "start = (if New s then OnSessionStarted h (prepare env s hp)
                  else (None, prepare env s hp))"
    and "cb_request (snd start) = Some q" and "wf_objects (snd start)"
  shows "map fst (calls (ProcessRequest rt tol alexa (Some env) hp)) =
           (if New s then [CallOnSessionStarted] else []) @
           (if fst start \<noteq> None then []
            else if Type q = ''LaunchRequest'' then [CallOnLaunch]
            else if Type q = ''IntentRequest'' then [CallOnIntent]
            else if Type q = ''SessionEndedRequest'' then [CallOnSessionEnded]
            else []) \<and>
         (fst start = None \<and> Type q \<noteq> ''LaunchRequest'' \<and> Type q \<noteq> ''IntentRequest'' \<and>
          Type q \<noteq> ''SessionEndedRequest'' \<longrightarrow>
            result (ProcessRequest rt tol alexa (Some env) hp) =
              Done (Inr \<lparr>Response_Version = ''1.0'',
                SessionAttributes = Some (length (cb_store (snd start))),
                Response = (if New s then cb_response (snd start) else defaultResponse)\<rparr>))"
proof -
  let ?R = "ProcessRequest rt tol alexa (Some env) hp"
  let ?st0 = "prepare env s hp"
  let ?t1 = "if New s then [(CallOnSessionStarted, fst start)] else []"
  define err where "err = fst start"
  define st1 where "st1 = snd start"
  have st: "start = (err, st1)" by (simp add: err_def st1_def)
  have new: "OnSessionStarted h ?st0 = (err, st1)" if "New s"
    using that assms(4) st by simp
  have old: "err = None \<and> st1 = ?st0" if "\<not> New s"
    using that assms(4) st by simp
  have R: "?R = serve alexa env hp" using assms(1) by (rule ProcessRequest_passed)
  have start: "startSession alexa ?st0 = (Done (map_option ErrCallback err), st1, ?t1)"
    using assms(3) new old
    by (cases "New s") (simp_all add: startSession_def prepare_simps invoke_Some err_def)
  have resp0: "\<not> New s \<Longrightarrow> cb_response st1 = defaultResponse"
    using old by (simp add: prepare_simps)
  show ?thesis
  proof (cases err)
    case (Some e)
    with start assms(2) have "calls ?R = ?t1"
      by (simp add: R serve_def leave_def)
    with Some st show ?thesis by simp
  next
    case None
    obtain r2 st2 t2 where disp: "dispatch alexa st1 = (r2, st2, t2)"
      by (cases "dispatch alexa st1")
    have calls: "calls ?R = ?t1 @ t2"
      using start disp assms(2) None
      by (simp add: R serve_def leave_def split: outcome.splits option.splits prod.splits)
    have t2: "map fst t2 =
           (if Type q = ''LaunchRequest'' then [CallOnLaunch]
            else if Type q = ''IntentRequest'' then [CallOnIntent]
            else if Type q = ''SessionEndedRequest'' then [CallOnSessionEnded]
            else [])"
      using disp assms(3,5) st
      by (auto simp: dispatch_def invoke_Some launchRequestName_def intentRequestName_def
          sessionEndedRequestName_def)
    have other: "result ?R =
              Done (Inr \<lparr>Response_Version = ''1.0'',
                SessionAttributes = Some (length (cb_store st1)),
                Response = (if New s then cb_response st1 else defaultResponse)\<rparr>)"
      if "Type q \<noteq> ''LaunchRequest''" "Type q \<noteq> ''IntentRequest''"
        "Type q \<noteq> ''SessionEndedRequest''"
    proof -
      from that assms(5) st have d: "dispatch alexa st1 = (Done None, st1, [])"
        by (simp add: dispatch_def launchRequestName_def intentRequestName_def
            sessionEndedRequestName_def)
      from assms(6) st obtain hp3 where
        "respond st1 = Done (\<lparr>Response_Version = ''1.0'',
            SessionAttributes = Some (length (cb_store st1)), Response = cb_response st1\<rparr>, hp3)"
        by (auto simp: respond_def wf_objects_def Let_def sdkVersion_def split: option.splits)
      with start d assms(2) resp0 None show ?thesis
        by (auto simp: R serve_def leave_def)
    qed
    from calls t2 other None st show ?thesis by auto
  qed
qed

theorem dispatch_by_type_witness:
  "checks exampleRuntime timestampTolerance (exampleAlexa exampleHandler)
     (Some (exampleEnvelope (exampleSession True ''amzn1.ask.skill.example'')
        (exampleRequest ''IntentRequest'' ''2017-06-01T12:00:00Z''))) = Done None \<and>
   map fst (calls (ProcessRequest exampleRuntime timestampTolerance (exampleAlexa exampleHandler)
     (Some (exampleEnvelope (exampleSession True ''amzn1.ask.skill.example'')
        (exampleRequest ''IntentRequest'' ''2017-06-01T12:00:00Z''))) [])) =
     [CallOnSessionStarted, CallOnIntent] \<and>
   checks exampleRuntime timestampTolerance (exampleAlexa exampleHandler)
     (Some (exampleEnvelope (exampleSession False ''amzn1.ask.skill.example'')
        (exampleRequest ''CanFulfillIntentRequest'' ''2017-06-01T12:00:00Z''))) = Done None \<and>
   map fst (calls (ProcessRequest exampleRuntime timestampTolerance (exampleAlexa exampleHandler)
     (Some (exampleEnvelope (exampleSession False ''amzn1.ask.skill.example'')
        (exampleRequest ''CanFulfillIntentRequest'' ''2017-06-01T12:00:00Z''))) [])) = [] \<and>
   result (ProcessRequest exampleRuntime timestampTolerance (exampleAlexa exampleHandler)
     (Some (exampleEnvelope (exampleSession False ''amzn1.ask.skill.example'')
        (exampleRequest ''CanFulfillIntentRequest'' ''2017-06-01T12:00:00Z''))) []) =
     Done (Inr \<lparr>Response_Version = ''1.0'', SessionAttributes = Some 1,
       Response = \<lparr>OutputSpeech = None, Card = None, Reprompt = None, Directives = [],
         ShouldEndSession = True\<rparr>\<rparr>)"
proof -
  let ?A = "exampleAlexa exampleHandler"
  let ?s1 = "exampleSession True ''amzn1.ask.skill.example''"
  let ?q1 = "exampleRequest ''IntentRequest'' ''2017-06-01T12:00:00Z''"
  let ?s2 = "exampleSession False ''amzn1.ask.skill.example''"
  let ?q2 = "exampleRequest ''CanFulfillIntentRequest'' ''2017-06-01T12:00:00Z''"
  have c1: "checks exampleRuntime timestampTolerance ?A (Some (exampleEnvelope ?s1 ?q1)) = Done None"
    by (rule example_checks)
  have c2: "checks exampleRuntime timestampTolerance ?A (Some (exampleEnvelope ?s2 ?q2)) = Done None"
    by (rule example_checks)
  have s: "Session (exampleEnvelope s q) = Some s" for s q
    by (simp add: exampleEnvelope_def)
  have h: "RequestHandler ?A = Some exampleHandler"
    by (simp add: exampleAlexa_def)
  have r1: "cb_request (snd (if New ?s1
        then OnSessionStarted exampleHandler (prepare (exampleEnvelope ?s1 ?q1) ?s1 [])
        else (None, prepare (exampleEnvelope ?s1 ?q1) ?s1 []))) = Some ?q1"
    by (simp add: prepare_def initAttributes_def example_defs)
  have w1: "wf_objects (snd (if New ?s1
        then OnSessionStarted exampleHandler (prepare (exampleEnvelope ?s1 ?q1) ?s1 [])
        else (None, prepare (exampleEnvelope ?s1 ?q1) ?s1 [])))"
    by (simp add: wf_objects_def prepare_def initAttributes_def example_defs)
  have r2: "cb_request (snd (if New ?s2
        then OnSessionStarted exampleHandler (prepare (exampleEnvelope ?s2 ?q2) ?s2 [])
        else (None, prepare (exampleEnvelope ?s2 ?q2) ?s2 []))) = Some ?q2"
    by (simp add: prepare_def initAttributes_def example_defs)
  have w2: "wf_objects (snd (if New ?s2
        then OnSessionStarted exampleHandler (prepare (exampleEnvelope ?s2 ?q2) ?s2 [])
        else (None, prepare (exampleEnvelope ?s2 ?q2) ?s2 [])))"
    by (simp add: wf_objects_def prepare_def initAttributes_def example_defs)
  show ?thesis
    using c1 c2 dispatch_by_type [OF c1 s h refl r1 w1] dispatch_by_type [OF c2 s h refl r2 w2]
    by (simp add: prepare_def initAttributes_def defaultResponse_def example_defs)
qed

text \<open>
  A request of a type outside the three, in a new session: \<^verbatim>\<open>OnSessionStarted\<close> is
  called, and the response returned carries the speech it set.
\<close>

theorem dispatch_by_type_counterexample:
  "checks exampleRuntime timestampTolerance
     (exampleAlexa (exampleHandler\<lparr>OnSessionStarted := speak ''Hello again''\<rparr>))
     (Some (exampleEnvelope (exampleSession True ''amzn1.ask.skill.example'')
        (exampleRequest ''CanFulfillIntentRequest'' ''2017-06-01T12:00:00Z''))) = Done None \<and>
   calls (ProcessRequest exampleRuntime timestampTolerance
     (exampleAlexa (exampleHandler\<lparr>OnSessionStarted := speak ''Hello again''\<rparr>))
     (Some (exampleEnvelope (exampleSession True ''amzn1.ask.skill.example'')
        (exampleRequest ''CanFulfillIntentRequest'' ''2017-06-01T12:00:00Z''))) []) =
     [(CallOnSessionStarted, None)] \<and>
   result (ProcessRequest exampleRuntime timestampTolerance
     (exampleAlexa (exampleHandler\<lparr>OnSessionStarted := speak ''Hello again''\<rparr>))
     (Some (exampleEnvelope (exampleSession True ''amzn1.ask.skill.example'')
        (exampleRequest ''CanFulfillIntentRequest'' ''2017-06-01T12:00:00Z''))) []) =
     Done (Inr \<lparr>Response_Version = ''1.0'', SessionAttributes = Some 1,
       Response = \<lparr>OutputSpeech = Some \<lparr>Speech_Type = ''PlainText'', Text = ''Hello again'',
           SSML = '''', Speech_PlayBehavior = ''''\<rparr>,
         Card = None, Reprompt = None, Directives = [], ShouldEndSession = True\<rparr>\<rparr>)"
proof -
  have "checks exampleRuntime timestampTolerance
     (exampleAlexa (exampleHandler\<lparr>OnSessionStarted := speak ''Hello again''\<rparr>))
     (Some (exampleEnvelope (exampleSession True ''amzn1.ask.skill.example'')
        (exampleRequest ''CanFulfillIntentRequest'' ''2017-06-01T12:00:00Z''))) = Done None"
    by (rule example_checks)
  then show ?thesis
    by (simp add: ProcessRequest_passed run_defs example_defs)
qed

subsection \<open>Session attributes\<close>




end
